theory Spec2Isabelle
  imports Main "HOL-Library.Sublist"
begin

section \<open>Data model\<close>

text \<open>
  The records below follow the shapes the two \<open>Stack\<close> classes read from the
  CloudFormation SDK. A property that TypeScript declares optional (or that the code
  reads with a non-null assertion \<open>!\<close>, which is erased at run time) is an
  \<open>option\<close>: \<open>None\<close> is JavaScript's \<open>undefined\<close>. A \<open>Date\<close> is its time value
  in milliseconds; a \<open>Timestamp\<close> that is undefined or an invalid date compares false
  with every date under \<open>>=\<close>, and is \<open>None\<close> here.
\<close>

type_synonym Date = int

record StackEvent =
  EventId :: "string option"
  Timestamp :: "Date option"
  ResourceType :: "string option"
  LogicalResourceId :: "string option"
  ResourceStatus :: "string option"
  ResourceStatusReason :: "string option"

record Output =
  OutputKey :: "string option"
  OutputValue :: "string option"

text \<open>One element of \<open>response.Stacks\<close>: the two properties the code reads.\<close>

record StackDescription =
  StackId :: "string option"
  Outputs :: "Output list option"

record Parameter =
  ParameterKey :: string
  ParameterValue :: "string option"
  UsePreviousValue :: bool

record UpdateStackInput =
  StackName :: string
  Capabilities :: "string list"
  TemplateBody :: string
  Parameters :: "Parameter list"

record CreateStackInput = UpdateStackInput +
  OnFailure :: string

text \<open>
  What the code reads of a thrown value: the property \<open>Code\<close> and the message. An
  error made by \<open>Error(msg)\<close> has no \<open>Code\<close>.
\<close>

record js_error =
  Code :: "string option"
  message :: string

definition Error :: "string \<Rightarrow> js_error" where
  "Error msg = \<lparr>Code = None, message = msg\<rparr>"

subsection \<open>The remote service, the console and the world\<close>

text \<open>
  The CloudFormation client is a black box: each operation maps the request and the
  service's state \<open>'g\<close> to a reply and a new state. A rejected promise is \<open>Some err\<close>
  (for the submissions) or \<open>Inl err\<close> (for the queries). \<open>describeStacks\<close> replies
  with \<open>response.Stacks\<close>, \<open>describeStackEvents\<close> with \<open>response.StackEvents\<close>.
\<close>

record 'g gateway =
  updateStack :: "UpdateStackInput \<Rightarrow> 'g \<Rightarrow> js_error option \<times> 'g"
  createStack :: "CreateStackInput \<Rightarrow> 'g \<Rightarrow> js_error option \<times> 'g"
  deleteStack :: "string \<Rightarrow> 'g \<Rightarrow> js_error option \<times> 'g"
  describeStacks :: "string \<Rightarrow> 'g \<Rightarrow> (js_error + StackDescription list option) \<times> 'g"
  describeStackEvents :: "string option \<Rightarrow> 'g \<Rightarrow> (js_error + StackEvent list option) \<times> 'g"

datatype call =
    UpdateStack UpdateStackInput
  | CreateStack CreateStackInput
  | DeleteStack string
  | DescribeStacks string
  | DescribeStackEvents "string option"

text \<open>
  One entry per \<open>console.log\<close>: the banner of \<open>logStackAction\<close> (date, message, stack
  name), the line of \<open>logEvent\<close> for an event, and the line of eight \<open>=\<close>.
\<close>

datatype console_entry =
    ActionBanner Date string string
  | EventLine StackEvent
  | Rule

record 'g world =
  gstate :: 'g
  console :: "console_entry list"
  calls :: "call list"

definition call_updateStack ::
  "'g gateway \<Rightarrow> UpdateStackInput \<Rightarrow> 'g world \<Rightarrow> js_error option \<times> 'g world" where
  "call_updateStack gw inp w =
     (case updateStack gw inp (gstate w) of
        (r, g') \<Rightarrow> (r, w\<lparr>gstate := g', calls := calls w @ [UpdateStack inp]\<rparr>))"

definition call_createStack ::
  "'g gateway \<Rightarrow> CreateStackInput \<Rightarrow> 'g world \<Rightarrow> js_error option \<times> 'g world" where
  "call_createStack gw inp w =
     (case createStack gw inp (gstate w) of
        (r, g') \<Rightarrow> (r, w\<lparr>gstate := g', calls := calls w @ [CreateStack inp]\<rparr>))"

definition call_deleteStack ::
  "'g gateway \<Rightarrow> string \<Rightarrow> 'g world \<Rightarrow> js_error option \<times> 'g world" where
  "call_deleteStack gw name w =
     (case deleteStack gw name (gstate w) of
        (r, g') \<Rightarrow> (r, w\<lparr>gstate := g', calls := calls w @ [DeleteStack name]\<rparr>))"

definition call_describeStacks ::
  "'g gateway \<Rightarrow> string \<Rightarrow> 'g world \<Rightarrow> (js_error + StackDescription list option) \<times> 'g world" where
  "call_describeStacks gw name w =
     (case describeStacks gw name (gstate w) of
        (r, g') \<Rightarrow> (r, w\<lparr>gstate := g', calls := calls w @ [DescribeStacks name]\<rparr>))"

definition call_describeStackEvents ::
  "'g gateway \<Rightarrow> string option \<Rightarrow> 'g world \<Rightarrow> (js_error + StackEvent list option) \<times> 'g world" where
  "call_describeStackEvents gw sid w =
     (case describeStackEvents gw sid (gstate w) of
        (r, g') \<Rightarrow> (r, w\<lparr>gstate := g', calls := calls w @ [DescribeStackEvents sid]\<rparr>))"

definition logStackAction :: "string \<Rightarrow> Date \<Rightarrow> string \<Rightarrow> 'g world \<Rightarrow> 'g world" where
  "logStackAction name date msg w = w\<lparr>console := console w @ [ActionBanner date msg name]\<rparr>"

section \<open>The convergence loop (src/index.ts, waitFor)\<close>

text \<open>
  The regular expression \<open>/(CREATE_COMPLETE|...|DELETE_FAILED)$/\<close> is anchored at the
  end of the string only: \<open>status.match(finished)\<close> is non-null exactly when the
  status ends with one of the seven alternatives.
\<close>

definition terminal_values :: "string list" where
  "terminal_values =
     [''CREATE_COMPLETE'', ''UPDATE_COMPLETE'', ''DELETE_COMPLETE'', ''ROLLBACK_COMPLETE'',
      ''ROLLBACK_FAILED'', ''CREATE_FAILED'', ''DELETE_FAILED'']"

definition finished :: "string \<Rightarrow> bool" where
  "finished s = list_ex (\<lambda>t. suffix t s) terminal_values"

text \<open>The local variables of one invocation of \<open>waitFor\<close>.\<close>

record locals =
  shown :: "string option set"
  status :: string

text \<open>\<open>s || ''\<close> on a string that may be undefined.\<close>

definition or_empty :: "string option \<Rightarrow> string" where
  "or_empty s = (case s of None \<Rightarrow> [] | Some x \<Rightarrow> x)"

text \<open>\<open>e.Timestamp! >= start && !shown.has(e.EventId!)\<close>\<close>

definition passes :: "Date \<Rightarrow> string option set \<Rightarrow> StackEvent \<Rightarrow> bool" where
  "passes start sh e =
     ((case Timestamp e of None \<Rightarrow> False | Some t \<Rightarrow> start \<le> t) \<and> EventId e \<notin> sh)"

definition stack_type :: string where
  "stack_type = ''AWS::CloudFormation::Stack''"

text \<open>The body of the \<open>forEach\<close>: print, mark as shown, track the stack's status.\<close>

definition forEach_body ::
  "StackEvent \<Rightarrow> locals \<times> console_entry list \<Rightarrow> locals \<times> console_entry list" where
  "forEach_body e lc =
     (case lc of (l, c) \<Rightarrow>
        (\<lparr>shown = insert (EventId e) (shown l),
          status = (if ResourceType e = Some stack_type then or_empty (ResourceStatus e)
                    else status l)\<rparr>,
         c @ [EventLine e]))"

text \<open>
  One poll's \<open>events.filter(...).reverse().forEach(...)\<close>. The filter reads the set
  \<open>shown\<close> as it is before the \<open>forEach\<close> starts.
\<close>

definition pollStep ::
  "Date \<Rightarrow> StackEvent list \<Rightarrow> locals \<times> console_entry list \<Rightarrow> locals \<times> console_entry list" where
  "pollStep start events lc =
     fold forEach_body (rev (filter (passes start (shown (fst lc))) events)) lc"

text \<open>
  The \<open>while\<close> loop has no bound in the source; the first argument bounds the number
  of polls. The result \<open>None\<close> says that the loop is still polling when the bound is
  reached; the world returned with it is the world at that moment. The delay between
  polls is not modelled.
\<close>

fun waitLoop ::
  "nat \<Rightarrow> 'g gateway \<Rightarrow> string option \<Rightarrow> Date \<Rightarrow> locals \<Rightarrow> 'g world
     \<Rightarrow> (js_error + locals) option \<times> 'g world" where
  "waitLoop 0 gw sid start l w = (if finished (status l) then (Some (Inr l), w) else (None, w))"
| "waitLoop (Suc n) gw sid start l w =
     (if finished (status l) then (Some (Inr l), w)
      else (case call_describeStackEvents gw sid w of
              (Inl err, w') \<Rightarrow> (Some (Inl err), w')
            | (Inr response, w') \<Rightarrow>
                (case pollStep start (case response of None \<Rightarrow> [] | Some es \<Rightarrow> es)
                        (l, console w') of
                   (l', c') \<Rightarrow> waitLoop n gw sid start l' (w'\<lparr>console := c'\<rparr>))))"

definition getStackId ::
  "'g gateway \<Rightarrow> string \<Rightarrow> 'g world \<Rightarrow> (js_error + string option) \<times> 'g world" where
  "getStackId gw name w =
     (case call_describeStacks gw name w of
        (Inl err, w') \<Rightarrow> (Inl err, w')
      | (Inr stacks, w') \<Rightarrow>
          (case stacks of
             None \<Rightarrow> (Inl (Error (''No StackId for stack '' @ [CHR 0x22] @ name @ '' found'')), w')
           | Some ss \<Rightarrow>
               if length ss \<noteq> 1
               then (Inl (Error (''No StackId for stack '' @ [CHR 0x22] @ name @ '' found'')), w')
               else (Inr (StackId (hd ss)), w')))"

definition waitFor ::
  "nat \<Rightarrow> 'g gateway \<Rightarrow> string \<Rightarrow> string \<Rightarrow> Date \<Rightarrow> 'g world
     \<Rightarrow> (js_error + unit) option \<times> 'g world" where
  "waitFor n gw name success start w =
     (case getStackId gw name w of
        (Inl err, w1) \<Rightarrow> (Some (Inl err), w1)
      | (Inr sid, w1) \<Rightarrow>
          (case waitLoop n gw sid start \<lparr>shown = {}, status = []\<rparr> w1 of
             (None, w2) \<Rightarrow> (None, w2)
           | (Some (Inl err), w2) \<Rightarrow> (Some (Inl err), w2)
           | (Some (Inr l), w2) \<Rightarrow>
               (let w3 = w2\<lparr>console := console w2 @ [Rule]\<rparr>
                in if status l \<noteq> success
                   then (Some (Inl (Error (''Unexpected Stack Status '' @ status l))), w3)
                   else (Some (Inr ()), w3))))"

section \<open>createOrUpdate, delete and getOutputs (src/index.ts)\<close>

definition stackDoesNotExist :: "js_error \<Rightarrow> bool" where
  "stackDoesNotExist err =
     (Code err = Some ''ValidationError'' \<and> sublist ''does not exist'' (message err))"

definition stackIsUpToDate :: "js_error \<Rightarrow> bool" where
  "stackIsUpToDate err =
     (Code err = Some ''ValidationError''
      \<and> sublist ''No updates are to be performed'' (message err))"

text \<open>
  \<open>params\<close> is the list \<open>Object.entries(params)\<close>; an undefined value is \<open>None\<close>.
\<close>

definition mkStackInput ::
  "string \<Rightarrow> string \<Rightarrow> (string \<times> string option) list \<Rightarrow> UpdateStackInput" where
  "mkStackInput name template params =
     \<lparr>StackName = name,
      Capabilities = [''CAPABILITY_IAM'', ''CAPABILITY_NAMED_IAM''],
      TemplateBody = template,
      Parameters = map (\<lambda>(key, v). \<lparr>ParameterKey = key, ParameterValue = v,
                                    UsePreviousValue = (v = None)\<rparr>) params\<rparr>"

text \<open>\<open>{ OnFailure: 'DELETE', ...stackInput }\<close>: no property of \<open>stackInput\<close> overwrites
  \<open>OnFailure\<close>.\<close>

definition mkCreateInput :: "UpdateStackInput \<Rightarrow> CreateStackInput" where
  "mkCreateInput inp =
     \<lparr>StackName = StackName inp, Capabilities = Capabilities inp,
      TemplateBody = TemplateBody inp, Parameters = Parameters inp,
      OnFailure = ''DELETE''\<rparr>"

text \<open>The \<open>try\<close> block of \<open>createOrUpdate\<close>.\<close>

definition tryUpdate ::
  "nat \<Rightarrow> 'g gateway \<Rightarrow> string \<Rightarrow> UpdateStackInput \<Rightarrow> Date \<Rightarrow> 'g world
     \<Rightarrow> (js_error + unit) option \<times> 'g world" where
  "tryUpdate n gw name stackInput now w =
     (case call_updateStack gw stackInput w of
        (Some err, w1) \<Rightarrow> (Some (Inl err), w1)
      | (None, w1) \<Rightarrow>
          waitFor n gw name ''UPDATE_COMPLETE'' now (logStackAction name now ''Updating stack'' w1))"

definition createOrUpdate ::
  "nat \<Rightarrow> 'g gateway \<Rightarrow> string \<Rightarrow> string \<Rightarrow> (string \<times> string option) list \<Rightarrow> Date \<Rightarrow> 'g world
     \<Rightarrow> (js_error + unit) option \<times> 'g world" where
  "createOrUpdate n gw name template params now w =
     (let stackInput = mkStackInput name template params
      in case tryUpdate n gw name stackInput now w of
           (None, w2) \<Rightarrow> (None, w2)
         | (Some (Inr u), w2) \<Rightarrow> (Some (Inr u), w2)
         | (Some (Inl err), w2) \<Rightarrow>
             if stackDoesNotExist err then
               (case call_createStack gw (mkCreateInput stackInput) w2 of
                  (Some err', w3) \<Rightarrow> (Some (Inl err'), w3)
                | (None, w3) \<Rightarrow>
                    waitFor n gw name ''CREATE_COMPLETE'' now
                      (logStackAction name now ''Creating new stack'' w3))
             else if stackIsUpToDate err then
               (Some (Inr ()), logStackAction name now ''No updates needed for stack'' w2)
             else (Some (Inl err), w2))"

definition delete_stack ::
  "nat \<Rightarrow> 'g gateway \<Rightarrow> string \<Rightarrow> Date \<Rightarrow> 'g world \<Rightarrow> (js_error + unit) option \<times> 'g world" where
  "delete_stack n gw name now w =
     (case call_deleteStack gw name w of
        (Some err, w1) \<Rightarrow> (Some (Inl err), w1)
      | (None, w1) \<Rightarrow>
          waitFor n gw name ''DELETE_COMPLETE'' now (logStackAction name now ''Deleting stack'' w1))"

text \<open>
  \<open>outputs[k] = v\<close> on the plain object \<open>{}\<close>. For the key \<open>__proto__\<close> the
  assignment runs the setter inherited from \<open>Object.prototype\<close>, which ignores a
  string: no own property is created. Every other key becomes (or overwrites) an own
  property.
\<close>

definition js_assign :: "(string \<rightharpoonup> string) \<Rightarrow> string \<Rightarrow> string \<Rightarrow> (string \<rightharpoonup> string)" where
  "js_assign obj k v = (if k = ''__proto__'' then obj else obj(k \<mapsto> v))"

text \<open>\<open>if (o.OutputKey && o.OutputValue)\<close>: undefined and the empty string are falsy.\<close>

definition truthy :: "string option \<Rightarrow> bool" where
  "truthy s = (case s of None \<Rightarrow> False | Some x \<Rightarrow> x \<noteq> [])"

definition addOutput :: "Output \<Rightarrow> (string \<rightharpoonup> string) \<Rightarrow> (string \<rightharpoonup> string)" where
  "addOutput o1 outputs =
     (if truthy (OutputKey o1) \<and> truthy (OutputValue o1)
      then js_assign outputs (or_empty (OutputKey o1)) (or_empty (OutputValue o1))
      else outputs)"

definition getOutputs ::
  "'g gateway \<Rightarrow> string \<Rightarrow> 'g world \<Rightarrow> (js_error + (string \<rightharpoonup> string)) \<times> 'g world" where
  "getOutputs gw name w =
     (case call_describeStacks gw name w of
        (Inl err, w') \<Rightarrow> (Inl err, w')
      | (Inr stacks, w') \<Rightarrow>
          (case stacks of
             None \<Rightarrow> (Inr Map.empty, w')
           | Some ss \<Rightarrow>
               if length ss = 1
               then (case Outputs (hd ss) of
                       None \<Rightarrow> (Inr Map.empty, w')
                     | Some os \<Rightarrow> (Inr (fold addOutput os Map.empty), w'))
               else (Inr Map.empty, w')))"

text \<open>
  For stating what \<open>getOutputs\<close> returns: the pairs of key and value of the outputs
  that the loop of \<open>getOutputs\<close> stores, in the order of the response.
\<close>

definition kept_outputs :: "Output list \<Rightarrow> (string \<times> string) list" where
  "kept_outputs os =
     concat (map (\<lambda>o1. case OutputKey o1 of None \<Rightarrow> []
                        | Some k \<Rightarrow> (case OutputValue o1 of None \<Rightarrow> []
                            | Some v \<Rightarrow> if k \<noteq> [] \<and> v \<noteq> [] \<and> k \<noteq> ''__proto__''
                                        then [(k, v)] else [])) os)"

text \<open>The events whose lines a console holds, and those added between two consoles.\<close>

fun logged :: "console_entry list \<Rightarrow> StackEvent list" where
  "logged [] = []"
| "logged (EventLine e # c) = e # logged c"
| "logged (x # c) = logged c"

definition printed_since :: "console_entry list \<Rightarrow> console_entry list \<Rightarrow> StackEvent list" where
  "printed_since c c' = logged (drop (length c) c')"

text \<open>Orders on events by timestamp, for events that carry one.\<close>

definition not_older :: "StackEvent \<Rightarrow> StackEvent \<Rightarrow> bool" where
  "not_older a b =
     (case Timestamp a of None \<Rightarrow> False
      | Some x \<Rightarrow> (case Timestamp b of None \<Rightarrow> False | Some y \<Rightarrow> y \<le> x))"

definition newer :: "StackEvent \<Rightarrow> StackEvent \<Rightarrow> bool" where
  "newer a b =
     (case Timestamp a of None \<Rightarrow> False
      | Some x \<Rightarrow> (case Timestamp b of None \<Rightarrow> False | Some y \<Rightarrow> y < x))"

section \<open>The text of an event line (logEvent, fmtTime, fmtReason)\<close>

text \<open>
  \<open>toISOString\<close> and the \<open>word-wrap\<close> package (called with width 90 and an indent
  of nine spaces) are outside the repository: they are the parameters \<open>toISO\<close> and
  \<open>wrap\<close>. \<open>substring\<close> clamps both indices to the length and swaps them when the
  first is the larger.
\<close>

definition js_substring :: "string \<Rightarrow> nat \<Rightarrow> nat \<Rightarrow> string" where
  "js_substring s a b =
     (let a' = min a (length s); b' = min b (length s)
      in take (max a' b' - min a' b') (drop (min a' b') s))"

definition fmtTime :: "(Date \<Rightarrow> string) \<Rightarrow> Date \<Rightarrow> string" where
  "fmtTime toISO date = js_substring (toISO date) 11 19"

definition fmtReason :: "(string \<Rightarrow> string) \<Rightarrow> string option \<Rightarrow> string" where
  "fmtReason wrap reason = (if truthy reason then CHR 0x0A # wrap (or_empty reason) else [])"

fun join :: "string \<Rightarrow> string list \<Rightarrow> string" where
  "join sep [] = []"
| "join sep [x] = x"
| "join sep (x # y # ys) = x @ sep @ join sep (y # ys)"

text \<open>
  The line \<open>logEvent\<close> prints. With an undefined \<open>Timestamp\<close> the call
  \<open>toISOString\<close> raises a TypeError (\<open>None\<close>); the filter of the loop lets no such
  event through.
\<close>

definition logEvent ::
  "(Date \<Rightarrow> string) \<Rightarrow> (string \<Rightarrow> string) \<Rightarrow> StackEvent \<Rightarrow> string option" where
  "logEvent toISO wrap e =
     (case Timestamp e of
        None \<Rightarrow> None
      | Some t \<Rightarrow>
          Some (join '' ''
            (map or_empty
              [Some (fmtTime toISO t), ResourceStatus e, ResourceType e,
               Some ([CHR 0x22]
                     @ (case LogicalResourceId e of None \<Rightarrow> ''undefined'' | Some x \<Rightarrow> x)
                     @ [CHR 0x22]),
               Some (fmtReason wrap (ResourceStatusReason e))])))"

section \<open>The aws-sdk v2 implementation (the second Stack class)\<close>

text \<open>\<open>substr(start, length)\<close> with a non-negative start.\<close>

definition js_substr :: "string \<Rightarrow> nat \<Rightarrow> nat \<Rightarrow> string" where
  "js_substr s a n =
     (let a' = min a (length s); b' = min (a' + n) (length s)
      in take (b' - a') (drop a' s))"

definition fmtTime_v2 :: "(Date \<Rightarrow> string) \<Rightarrow> Date \<Rightarrow> string" where
  "fmtTime_v2 toISO date = js_substr (toISO date) 11 8"

definition logEvent_v2 ::
  "(Date \<Rightarrow> string) \<Rightarrow> (string \<Rightarrow> string) \<Rightarrow> StackEvent \<Rightarrow> string option" where
  "logEvent_v2 toISO wrap e =
     (case Timestamp e of
        None \<Rightarrow> None
      | Some t \<Rightarrow>
          Some (join '' ''
            (map or_empty
              [Some (fmtTime_v2 toISO t), ResourceStatus e, ResourceType e,
               Some ([CHR 0x22]
                     @ (case LogicalResourceId e of None \<Rightarrow> ''undefined'' | Some x \<Rightarrow> x)
                     @ [CHR 0x22]),
               Some (fmtReason wrap (ResourceStatusReason e))])))"

definition finished_v2 :: "string \<Rightarrow> bool" where
  "finished_v2 s =
     (\<exists>t \<in> {''CREATE_COMPLETE'', ''UPDATE_COMPLETE'', ''DELETE_COMPLETE'', ''ROLLBACK_COMPLETE'',
              ''ROLLBACK_FAILED'', ''CREATE_FAILED'', ''DELETE_FAILED''}. suffix t s)"

fun forEach_v2 ::
  "StackEvent list \<Rightarrow> string option set \<Rightarrow> string \<Rightarrow> console_entry list
     \<Rightarrow> string option set \<times> string \<times> console_entry list" where
  "forEach_v2 [] sh st c = (sh, st, c)"
| "forEach_v2 (e # es) sh st c =
     forEach_v2 es (insert (EventId e) sh)
       (if ResourceType e = Some ''AWS::CloudFormation::Stack''
        then (case ResourceStatus e of None \<Rightarrow> [] | Some x \<Rightarrow> x) else st)
       (c @ [EventLine e])"

fun waitLoop_v2 ::
  "nat \<Rightarrow> 'g gateway \<Rightarrow> string option \<Rightarrow> Date \<Rightarrow> string option set \<Rightarrow> string \<Rightarrow> 'g world
     \<Rightarrow> (js_error + string) option \<times> 'g world" where
  "waitLoop_v2 0 gw sid start sh st w = (if finished_v2 st then (Some (Inr st), w) else (None, w))"
| "waitLoop_v2 (Suc n) gw sid start sh st w =
     (if finished_v2 st then (Some (Inr st), w)
      else (case call_describeStackEvents gw sid w of
              (Inl err, w') \<Rightarrow> (Some (Inl err), w')
            | (Inr response, w') \<Rightarrow>
                (case forEach_v2
                        (rev (filter
                           (\<lambda>e. (case Timestamp e of None \<Rightarrow> False | Some t \<Rightarrow> t \<ge> start)
                                \<and> \<not> (EventId e \<in> sh))
                           (case response of None \<Rightarrow> [] | Some es \<Rightarrow> es)))
                        sh st (console w') of
                   (sh', st', c') \<Rightarrow> waitLoop_v2 n gw sid start sh' st' (w'\<lparr>console := c'\<rparr>))))"

definition waitFor_v2 ::
  "nat \<Rightarrow> 'g gateway \<Rightarrow> string \<Rightarrow> string \<Rightarrow> Date \<Rightarrow> 'g world
     \<Rightarrow> (js_error + unit) option \<times> 'g world" where
  "waitFor_v2 n gw name success start w =
     (case call_describeStacks gw name w of
        (Inl err, w1) \<Rightarrow> (Some (Inl err), w1)
      | (Inr None, w1) \<Rightarrow>
          (Some (Inl (Error (''No StackId for stack '' @ [CHR 0x22] @ name @ '' found''))), w1)
      | (Inr (Some ss), w1) \<Rightarrow>
          if length ss \<noteq> 1
          then (Some (Inl (Error (''No StackId for stack '' @ [CHR 0x22] @ name @ '' found''))), w1)
          else (case waitLoop_v2 n gw (StackId (hd ss)) start {} [] w1 of
                  (None, w2) \<Rightarrow> (None, w2)
                | (Some (Inl err), w2) \<Rightarrow> (Some (Inl err), w2)
                | (Some (Inr st), w2) \<Rightarrow>
                    if st \<noteq> success
                    then (Some (Inl (Error (''Unexpected Stack Status '' @ st))),
                          w2\<lparr>console := console w2 @ [Rule]\<rparr>)
                    else (Some (Inr ()), w2\<lparr>console := console w2 @ [Rule]\<rparr>)))"

fun outputs_v2 :: "Output list \<Rightarrow> (string \<rightharpoonup> string) \<Rightarrow> (string \<rightharpoonup> string)" where
  "outputs_v2 [] outputs = outputs"
| "outputs_v2 (o1 # os) outputs =
     outputs_v2 os
       (case OutputKey o1 of
          None \<Rightarrow> outputs
        | Some k \<Rightarrow>
            (case OutputValue o1 of
               None \<Rightarrow> outputs
             | Some v \<Rightarrow> if k \<noteq> [] \<and> v \<noteq> [] then js_assign outputs k v else outputs))"

definition getOutputs_v2 ::
  "'g gateway \<Rightarrow> string \<Rightarrow> 'g world \<Rightarrow> (js_error + (string \<rightharpoonup> string)) \<times> 'g world" where
  "getOutputs_v2 gw name w =
     (case call_describeStacks gw name w of
        (Inl err, w') \<Rightarrow> (Inl err, w')
      | (Inr (Some [s]), w') \<Rightarrow>
          (case Outputs s of
             None \<Rightarrow> (Inr Map.empty, w')
           | Some os \<Rightarrow> (Inr (outputs_v2 os Map.empty), w'))
      | (Inr _, w') \<Rightarrow> (Inr Map.empty, w'))"

section \<open>Example runs\<close>

definition mkEvent :: "string \<Rightarrow> Date \<Rightarrow> string \<Rightarrow> string \<Rightarrow> StackEvent" where
  "mkEvent eid t rtype rstatus =
     \<lparr>EventId = Some eid, Timestamp = Some t, ResourceType = Some rtype,
      LogicalResourceId = Some ''res'', ResourceStatus = Some rstatus,
      ResourceStatusReason = None\<rparr>"

text \<open>
  A service whose state counts the event polls answered so far: poll \<open>i\<close> returns the
  \<open>i\<close>-th list of the script (the empty list beyond its end); the update submission
  answers \<open>upd\<close>; the stack lookup finds one stack with the outputs \<open>outs\<close>.
\<close>

definition scripted ::
  "js_error option \<Rightarrow> Output list option \<Rightarrow> StackEvent list list \<Rightarrow> nat gateway" where
  "scripted upd outs script =
     \<lparr>updateStack = (\<lambda>inp g. (upd, g)),
      createStack = (\<lambda>inp g. (None, g)),
      deleteStack = (\<lambda>name g. (None, g)),
      describeStacks = (\<lambda>name g. (Inr (Some [\<lparr>StackId = Some ''id-1'', Outputs = outs\<rparr>]), g)),
      describeStackEvents =
        (\<lambda>sid g. (Inr (Some (case drop g script of [] \<Rightarrow> [] | es # _ \<Rightarrow> es)), Suc g))\<rparr>"

definition world0 :: "nat world" where
  "world0 = \<lparr>gstate = 0, console = [], calls = []\<rparr>"

text \<open>
  A creation seen in two polls that overlap: an event older than the start, the stack's
  own progress event, a role whose status reads \<open>CREATE_COMPLETE\<close>, and at last the
  stack's own \<open>CREATE_COMPLETE\<close>. Each list is newest first.
\<close>

definition ev_old :: StackEvent where
  "ev_old = mkEvent ''e0'' 1 stack_type ''UPDATE_COMPLETE''"

definition ev_progress :: StackEvent where
  "ev_progress = mkEvent ''e1'' 5 stack_type ''CREATE_IN_PROGRESS''"

definition ev_child :: StackEvent where
  "ev_child = mkEvent ''e2'' 6 ''AWS::IAM::Role'' ''CREATE_COMPLETE''"

definition ev_done :: StackEvent where
  "ev_done = mkEvent ''e3'' 7 stack_type ''CREATE_COMPLETE''"

definition script1 :: "StackEvent list list" where
  "script1 = [[ev_child, ev_progress, ev_old], [ev_done, ev_child, ev_progress, ev_old]]"

text \<open>Two events of the stack that carry the same event id.\<close>

definition dup_first :: StackEvent where
  "dup_first = mkEvent ''x'' 5 stack_type ''CREATE_IN_PROGRESS''"

definition dup_second :: StackEvent where
  "dup_second = mkEvent ''x'' 6 stack_type ''CREATE_COMPLETE''"

text \<open>The world after the stack lookup of \<open>waitFor\<close> in \<open>world0\<close>.\<close>

definition world1 :: "nat world" where
  "world1 = \<lparr>gstate = 0, console = [], calls = [DescribeStacks ''s'']\<rparr>"

text \<open>Errors of the update submission, and the request of the example runs.\<close>

definition err_missing :: js_error where
  "err_missing = \<lparr>Code = Some ''ValidationError'', message = ''Stack [s] does not exist''\<rparr>"

definition err_uptodate :: js_error where
  "err_uptodate = \<lparr>Code = Some ''ValidationError'', message = ''No updates are to be performed.''\<rparr>"

definition err_both :: js_error where
  "err_both = \<lparr>Code = Some ''ValidationError'',
      message = ''Stack [s] does not exist. No updates are to be performed.''\<rparr>"

definition err_denied :: js_error where
  "err_denied = \<lparr>Code = Some ''AccessDenied'', message = ''not authorized''\<rparr>"

definition input1 :: UpdateStackInput where
  "input1 = \<lparr>StackName = ''s'', Capabilities = [''CAPABILITY_IAM'', ''CAPABILITY_NAMED_IAM''],
      TemplateBody = ''t'',
      Parameters = [\<lparr>ParameterKey = ''Env'', ParameterValue = Some ''test1'', UsePreviousValue = False\<rparr>,
                    \<lparr>ParameterKey = ''Keep'', ParameterValue = None, UsePreviousValue = True\<rparr>]\<rparr>"

definition create1 :: CreateStackInput where
  "create1 = \<lparr>StackName = ''s'', Capabilities = [''CAPABILITY_IAM'', ''CAPABILITY_NAMED_IAM''],
      TemplateBody = ''t'',
      Parameters = [\<lparr>ParameterKey = ''Env'', ParameterValue = Some ''test1'', UsePreviousValue = False\<rparr>,
                    \<lparr>ParameterKey = ''Keep'', ParameterValue = None, UsePreviousValue = True\<rparr>],
      OnFailure = ''DELETE''\<rparr>"

definition params1 :: "(string \<times> string option) list" where
  "params1 = [(''Env'', Some ''test1''), (''Keep'', None)]"

text \<open>Outputs of a stack: a complete one, one with an empty value, one without a key.\<close>

definition out_role :: Output where
  "out_role = \<lparr>OutputKey = Some ''Role'', OutputValue = Some ''arn:aws:iam::123:role/x''\<rparr>"

definition out_empty :: Output where
  "out_empty = \<lparr>OutputKey = Some ''Bucket'', OutputValue = Some ''''\<rparr>"

definition out_nokey :: Output where
  "out_nokey = \<lparr>OutputKey = None, OutputValue = Some ''v''\<rparr>"

section \<open>Evaluation of the example runs\<close>

lemmas run_defs =
  waitFor_def getStackId_def call_describeStacks_def call_describeStackEvents_def
  call_updateStack_def call_createStack_def logStackAction_def
  scripted_def world0_def finished_def terminal_values_def suffix_to_prefix
  pollStep_def passes_def forEach_body_def mkEvent_def stack_type_def or_empty_def

lemmas example_defs = ev_old_def ev_progress_def ev_child_def ev_done_def script1_def

lemmas error_defs = stackDoesNotExist_def stackIsUpToDate_def sublist_code prefix_code

lemmas create_defs = createOrUpdate_def tryUpdate_def mkStackInput_def mkCreateInput_def
  input1_def create1_def params1_def

section \<open>When the loop ends\<close>

lemma finished_iff_suffix: "finished s \<longleftrightarrow> (\<exists>t \<in> set terminal_values. suffix t s)"
  by (simp add: finished_def list_ex_iff)

text \<open>
  Claim C1, as the code has it. The loop of \<open>waitFor\<close> ends exactly when the tracked
  status ends with one of the seven terminal values (the regular expression is
  anchored at the end only): with such a status the loop returns at once, without a
  poll, whatever the bound; with any other status it has not ended, and one more
  iteration asks the service for the events and processes them before the test is
  made again.
\<close>

theorem waitLoop_exit_on_terminal_suffix:
  "(finished (status l) \<longleftrightarrow> (\<exists>t \<in> set terminal_values. \<exists>p. status l = p @ t))
   \<and> (finished (status l) \<longrightarrow> waitLoop n gw sid start l w = (Some (Inr l), w))
   \<and> (\<not> finished (status l) \<longrightarrow>
        waitLoop 0 gw sid start l w = (None, w)
        \<and> waitLoop (Suc n) gw sid start l w =
            (case call_describeStackEvents gw sid w of
               (Inl err, w') \<Rightarrow> (Some (Inl err), w')
             | (Inr response, w') \<Rightarrow>
                 (case pollStep start (case response of None \<Rightarrow> [] | Some es \<Rightarrow> es)
                         (l, console w') of
                    (l', c') \<Rightarrow> waitLoop n gw sid start l' (w'\<lparr>console := c'\<rparr>))))"
proof -
  have "finished (status l) \<longleftrightarrow> (\<exists>t \<in> set terminal_values. \<exists>p. status l = p @ t)"
    by (auto simp: finished_iff_suffix suffix_def)
  moreover have "finished (status l) \<longrightarrow> waitLoop n gw sid start l w = (Some (Inr l), w)"
    by (cases n) simp_all
  moreover have "\<not> finished (status l) \<longrightarrow> waitLoop 0 gw sid start l w = (None, w)"
    by simp
  ultimately show ?thesis by simp
qed

theorem waitLoop_exit_on_terminal_suffix_witness:
  "finished (status \<lparr>shown = {}, status = ''UPDATE_ROLLBACK_COMPLETE''\<rparr>)
   \<and> waitLoop 2 (scripted None None []) None 0
        \<lparr>shown = {}, status = ''UPDATE_ROLLBACK_COMPLETE''\<rparr> world0
      = (Some (Inr \<lparr>shown = {}, status = ''UPDATE_ROLLBACK_COMPLETE''\<rparr>), world0)
   \<and> \<not> finished (status \<lparr>shown = {}, status = ''UPDATE_IN_PROGRESS''\<rparr>)
   \<and> waitLoop 0 (scripted None None []) None 0
        \<lparr>shown = {}, status = ''UPDATE_IN_PROGRESS''\<rparr> world0 = (None, world0)
   \<and> waitLoop (Suc 0) (scripted None None []) None 0
        \<lparr>shown = {}, status = ''UPDATE_IN_PROGRESS''\<rparr> world0
      = (None, \<lparr>gstate = 1, console = [], calls = [DescribeStackEvents None]\<rparr>)"
  using waitLoop_exit_on_terminal_suffix
          [of "\<lparr>shown = {}, status = ''UPDATE_ROLLBACK_COMPLETE''\<rparr>" 2 "scripted None None []"
              None 0 world0]
        waitLoop_exit_on_terminal_suffix
          [of "\<lparr>shown = {}, status = ''UPDATE_IN_PROGRESS''\<rparr>" 0 "scripted None None []"
              None 0 world0]
  by (simp add: run_defs)

text \<open>
  The status \<open>UPDATE_ROLLBACK_COMPLETE\<close> is none of the seven values, and the loop
  ends on it: the stack's own event carries it in the first poll, no second poll is
  made although the bound allows three, and \<open>waitFor\<close> fails with that status.
\<close>

theorem rollback_status_ends_loop:
  "''UPDATE_ROLLBACK_COMPLETE'' \<notin> set terminal_values
   \<and> waitFor 3 (scripted None None [[mkEvent ''e1'' 5 stack_type ''UPDATE_ROLLBACK_COMPLETE'']])
        ''s'' ''UPDATE_COMPLETE'' 0 world0 =
      (Some (Inl (Error ''Unexpected Stack Status UPDATE_ROLLBACK_COMPLETE'')),
        \<lparr>gstate = 1,
         console = [EventLine (mkEvent ''e1'' 5 stack_type ''UPDATE_ROLLBACK_COMPLETE''), Rule],
         calls = [DescribeStacks ''s'', DescribeStackEvents (Some ''id-1'')]\<rparr>)"
  by (simp add: run_defs numeral_3_eq_3)

section \<open>What one poll and the whole loop print\<close>

lemma logged_append: "logged (xs @ ys) = logged xs @ logged ys"
  by (induction xs rule: logged.induct) simp_all

lemma logged_EventLines: "logged (map EventLine es) = es"
  by (induction es) simp_all

lemma printed_since_append: "printed_since c (c @ d) = logged d"
  by (simp add: printed_since_def)

lemma fold_forEach_console:
  "snd (fold forEach_body es lc) = snd lc @ map EventLine es"
  by (induction es arbitrary: lc) (auto simp: forEach_body_def split: prod.splits)

lemma fold_forEach_shown:
  "shown (fst (fold forEach_body es lc)) = shown (fst lc) \<union> EventId ` set es"
  by (induction es arbitrary: lc) (auto simp: forEach_body_def split: prod.splits)

lemma fold_forEach_status_frame:
  "\<forall>e \<in> set es. ResourceType e \<noteq> Some stack_type \<Longrightarrow>
   status (fst (fold forEach_body es lc)) = status (fst lc)"
  by (induction es arbitrary: lc) (auto simp: forEach_body_def split: prod.splits)

lemma pollStep_console:
  "snd (pollStep start es (l, c)) = c @ map EventLine (rev (filter (passes start (shown l)) es))"
  by (simp add: pollStep_def fold_forEach_console)

lemma pollStep_shown:
  "shown (fst (pollStep start es (l, c))) =
     shown l \<union> EventId ` {e \<in> set es. passes start (shown l) e}"
  by (auto simp: pollStep_def fold_forEach_shown)

lemma passes_mono: "passes start sh' e \<Longrightarrow> sh \<subseteq> sh' \<Longrightarrow> passes start sh e"
  by (auto simp: passes_def)

lemma call_describeStackEvents_console:
  "call_describeStackEvents gw sid w = (r, w') \<Longrightarrow> console w' = console w"
  by (auto simp: call_describeStackEvents_def split: prod.splits)

lemma call_describeStackEvents_reply:
  "call_describeStackEvents gw sid w = (r, w') \<Longrightarrow> r = fst (describeStackEvents gw sid (gstate w))"
  by (auto simp: call_describeStackEvents_def split: prod.splits)

text \<open>The loop's output, from any state of the loop.\<close>

lemma waitLoop_output:
  "waitLoop n gw sid start l w = (r, w') \<Longrightarrow>
   \<exists>new. console w' = console w @ map EventLine new
        \<and> (\<forall>e \<in> set new. passes start (shown l) e)
        \<and> (\<forall>l'. r = Some (Inr l') \<longrightarrow> shown l' = shown l \<union> EventId ` set new)
        \<and> ((\<forall>s g es. fst (describeStackEvents gw s g) = Inr (Some es) \<longrightarrow> distinct (map EventId es))
             \<longrightarrow> distinct (map EventId new))"
proof (induction n arbitrary: l w)
  case 0
  then show ?case by (auto split: if_splits intro: exI[of _ "[]"])
next
  case (Suc n)
  show ?case
  proof (cases "finished (status l)")
    case True
    with Suc.prems show ?thesis by (auto intro: exI[of _ "[]"])
  next
    case False
    obtain rep w1 where call: "call_describeStackEvents gw sid w = (rep, w1)"
      by (cases "call_describeStackEvents gw sid w")
    note c1 = call_describeStackEvents_console[OF call]
    show ?thesis
    proof (cases rep)
      case (Inl err)
      with Suc.prems False call c1 show ?thesis by (auto intro: exI[of _ "[]"])
    next
      case (Inr response)
      define es where "es = (case response of None \<Rightarrow> [] | Some es \<Rightarrow> es)"
      define new1 where "new1 = rev (filter (passes start (shown l)) es)"
      obtain l1 c1' where ps: "pollStep start es (l, console w1) = (l1, c1')"
        by (cases "pollStep start es (l, console w1)")
      have c1': "c1' = console w @ map EventLine new1"
        using pollStep_console[of start es l "console w1"] ps c1 by (simp add: new1_def)
      have sh1: "shown l1 = shown l \<union> EventId ` set new1"
        using pollStep_shown[of start es l "console w1"] ps by (auto simp: new1_def)
      have rest: "waitLoop n gw sid start l1 (w1\<lparr>console := c1'\<rparr>) = (r, w')"
        using Suc.prems False call Inr ps by (simp add: es_def)
      from Suc.IH[OF rest] obtain new2 where
        n2: "console w' = c1' @ map EventLine new2"
            "\<forall>e \<in> set new2. passes start (shown l1) e"
            "\<forall>l'. r = Some (Inr l') \<longrightarrow> shown l' = shown l1 \<union> EventId ` set new2"
            "(\<forall>s g es. fst (describeStackEvents gw s g) = Inr (Some es) \<longrightarrow> distinct (map EventId es))
               \<longrightarrow> distinct (map EventId new2)"
        by auto
      have p1: "\<forall>e \<in> set new1. passes start (shown l) e" by (simp add: new1_def)
      have p2: "\<forall>e \<in> set new2. passes start (shown l) e"
        using n2(2) sh1 by (auto intro: passes_mono)
      have "EventId ` set new2 \<inter> shown l1 = {}"
        using n2(2) by (auto simp: passes_def)
      then have disj: "EventId ` set new1 \<inter> EventId ` set new2 = {}"
        unfolding sh1 by auto
      have d: "(\<forall>s g es. fst (describeStackEvents gw s g) = Inr (Some es) \<longrightarrow> distinct (map EventId es))
               \<longrightarrow> distinct (map EventId (new1 @ new2))"
      proof
        assume u: "\<forall>s g es. fst (describeStackEvents gw s g) = Inr (Some es) \<longrightarrow> distinct (map EventId es)"
        have "distinct (map EventId es)"
        proof (cases response)
          case None
          then show ?thesis by (simp add: es_def)
        next
          case (Some x)
          from call_describeStackEvents_reply[OF call] Inr Some
          have "fst (describeStackEvents gw sid (gstate w)) = Inr (Some x)" by simp
          with u have "distinct (map EventId x)" by blast
          with Some show ?thesis by (simp add: es_def)
        qed
        then have "distinct (map EventId new1)"
          by (simp add: new1_def distinct_map_filter rev_map[symmetric])
        moreover from u n2(4) have "distinct (map EventId new2)" by blast
        ultimately show "distinct (map EventId (new1 @ new2))" using disj by simp
      qed
      show ?thesis
      proof (intro exI[of _ "new1 @ new2"] conjI)
        show "console w' = console w @ map EventLine (new1 @ new2)"
          using n2(1) c1' by simp
        show "\<forall>e \<in> set (new1 @ new2). passes start (shown l) e"
          using p1 p2 by auto
        show "\<forall>l'. r = Some (Inr l') \<longrightarrow> shown l' = shown l \<union> EventId ` set (new1 @ new2)"
        proof (intro allI impI)
          fix l' assume "r = Some (Inr l')"
          with n2(3) have "shown l' = shown l1 \<union> EventId ` set new2" by blast
          then show "shown l' = shown l \<union> EventId ` set (new1 @ new2)"
            unfolding sh1 by (simp add: image_Un Un_assoc)
        qed
        show "(\<forall>s g es. fst (describeStackEvents gw s g) = Inr (Some es) \<longrightarrow> distinct (map EventId es))
               \<longrightarrow> distinct (map EventId (new1 @ new2))"
          by (rule d)
      qed
    qed
  qed
qed

lemma getStackId_console: "getStackId gw name w = (r, w1) \<Longrightarrow> console w1 = console w"
  by (auto simp: getStackId_def call_describeStacks_def split: prod.splits sum.splits option.splits if_splits)

lemma waitLoop_exit_finished:
  "waitLoop n gw sid start l w = (Some (Inr l'), w') \<Longrightarrow> finished (status l')"
proof (induction n arbitrary: l w)
  case 0
  then show ?case by (auto split: if_splits)
next
  case (Suc n)
  then show ?case
    by (auto split: if_splits prod.splits sum.splits)
qed

lemma passes_timestamp: "passes start sh e \<Longrightarrow> \<exists>t. Timestamp e = Some t \<and> start \<le> t"
  by (auto simp: passes_def split: option.splits)

lemma waitFor_console:
  "\<exists>new tl. console (snd (waitFor n gw name success start w)) = console w @ map EventLine new @ tl
     \<and> (\<forall>e \<in> set new. passes start {} e) \<and> (tl = [] \<or> tl = [Rule])"
proof (cases "getStackId gw name w")
  case (Pair r w1)
  note c1 = getStackId_console[OF Pair]
  show ?thesis
  proof (cases r)
    case (Inl err)
    with Pair c1 show ?thesis
      by (intro exI[of _ "[]"]) (simp add: waitFor_def)
  next
    case (Inr sid)
    obtain r2 w2 where wl: "waitLoop n gw sid start \<lparr>shown = {}, status = []\<rparr> w1 = (r2, w2)"
      by (cases "waitLoop n gw sid start \<lparr>shown = {}, status = []\<rparr> w1")
    from waitLoop_output[OF wl] obtain new where
      new: "console w2 = console w1 @ map EventLine new" "\<forall>e \<in> set new. passes start {} e"
      by auto
    show ?thesis
    proof (cases r2)
      case None
      with Pair Inr wl new c1 show ?thesis
        by (intro exI[of _ new] exI[of _ "[]"]) (simp add: waitFor_def)
    next
      case (Some res)
      show ?thesis
      proof (cases res)
        case (Inl err)
        with Some Pair Inr wl new c1 show ?thesis
          by (intro exI[of _ new] exI[of _ "[]"]) (simp add: waitFor_def)
      next
        case (Inr l')
        with Some Pair \<open>r = Inr sid\<close> wl new c1 show ?thesis
          by (intro exI[of _ new] exI[of _ "[Rule]"]) (simp add: waitFor_def Let_def)
      qed
    qed
  qed
qed

lemma pollStep_printed:
  "printed_since c (snd (pollStep start es (l, c))) = rev (filter (passes start (shown l)) es)"
  by (simp add: pollStep_console printed_since_append logged_EventLines)

text \<open>
  Claim C2, as the code has it. Take any state of the loop in which the loop goes on,
  the poll made there and the rest of the loop after it (complete or still polling at
  the bound). The poll prints no event whose id is in \<open>shown\<close>; every id it prints is
  in \<open>shown\<close> afterwards; and no later poll prints an event whose id is in \<open>shown\<close>
  by then, so none of the ids printed by this poll or before it is printed again by a
  later poll, however the event lists of the polls overlap. When no single response
  carries an id twice, the ids of all events printed from this state on are pairwise
  distinct: every id is printed at most once.
\<close>

theorem shown_event_ids_never_reprinted:
  assumes nf: "\<not> finished (status l)"
    and call: "call_describeStackEvents gw sid w = (Inr response, w1)"
    and poll: "pollStep start (case response of None \<Rightarrow> [] | Some es \<Rightarrow> es) (l, console w1) = (l1, c1)"
    and rest: "waitLoop n gw sid start l1 (w1\<lparr>console := c1\<rparr>) = (r, w')"
  shows "waitLoop (Suc n) gw sid start l w = (r, w')
     \<and> (\<forall>e \<in> set (printed_since (console w) c1). EventId e \<notin> shown l)
     \<and> shown l1 = shown l \<union> EventId ` set (printed_since (console w) c1)
     \<and> (\<forall>e \<in> set (printed_since c1 (console w')). EventId e \<notin> shown l1)
     \<and> ((\<forall>s g es. fst (describeStackEvents gw s g) = Inr (Some es) \<longrightarrow> distinct (map EventId es))
          \<longrightarrow> distinct (map EventId (printed_since (console w) (console w'))))"
proof -
  define es where "es = (case response of None \<Rightarrow> [] | Some es \<Rightarrow> es)"
  have cw: "console w1 = console w"
    using call by (rule call_describeStackEvents_console)
  have run: "waitLoop (Suc n) gw sid start l w = (r, w')"
    using nf call poll rest by simp
  have p1: "printed_since (console w) c1 = rev (filter (passes start (shown l)) es)"
    using pollStep_printed[of "console w1" start es l] poll cw by (simp add: es_def)
  have a: "\<forall>e \<in> set (printed_since (console w) c1). EventId e \<notin> shown l"
    unfolding p1 by (simp add: passes_def)
  have b: "shown l1 = shown l \<union> EventId ` set (printed_since (console w) c1)"
    unfolding p1 using pollStep_shown[of start es l "console w1"] poll by (simp add: es_def)
  from waitLoop_output[OF rest] obtain new2 where
    n2: "console w' = c1 @ map EventLine new2" "\<forall>e \<in> set new2. passes start (shown l1) e"
    by auto
  have c: "\<forall>e \<in> set (printed_since c1 (console w')). EventId e \<notin> shown l1"
    using n2 by (simp add: printed_since_append logged_EventLines passes_def)
  from waitLoop_output[OF run] obtain new where
    n: "console w' = console w @ map EventLine new"
       "(\<forall>s g es. fst (describeStackEvents gw s g) = Inr (Some es) \<longrightarrow> distinct (map EventId es))
          \<longrightarrow> distinct (map EventId new)"
    by auto
  have d: "(\<forall>s g es. fst (describeStackEvents gw s g) = Inr (Some es) \<longrightarrow> distinct (map EventId es))
          \<longrightarrow> distinct (map EventId (printed_since (console w) (console w')))"
    using n by (simp add: printed_since_append logged_EventLines)
  from run a b c d show ?thesis by blast
qed

lemma scripted_unique_ids:
  "\<forall>s g es. fst (describeStackEvents (scripted None None script1) s g) = Inr (Some es)
      \<longrightarrow> distinct (map EventId es)"
proof (intro allI impI)
  fix s :: "string option" and g :: nat and es
  assume a: "fst (describeStackEvents (scripted None None script1) s g) = Inr (Some es)"
  consider "g = 0" | "g = 1" | "g \<ge> 2" by linarith
  then show "distinct (map EventId es)"
  proof cases
    case 1
    with a show ?thesis by (auto simp: scripted_def example_defs mkEvent_def)
  next
    case 2
    with a show ?thesis by (auto simp: scripted_def example_defs mkEvent_def)
  next
    case 3
    with a show ?thesis by (auto simp: scripted_def script1_def)
  qed
qed

theorem shown_event_ids_never_reprinted_witness:
  "\<not> finished (status \<lparr>shown = {}, status = []\<rparr>)
   \<and> call_describeStackEvents (scripted None None script1) (Some ''id-1'') world0
       = (Inr (Some [ev_child, ev_progress, ev_old]),
          \<lparr>gstate = 1, console = [], calls = [DescribeStackEvents (Some ''id-1'')]\<rparr>)
   \<and> pollStep 3 [ev_child, ev_progress, ev_old] (\<lparr>shown = {}, status = []\<rparr>, [])
       = (\<lparr>shown = {Some ''e2'', Some ''e1''}, status = ''CREATE_IN_PROGRESS''\<rparr>,
          [EventLine ev_progress, EventLine ev_child])
   \<and> waitLoop 2 (scripted None None script1) (Some ''id-1'') 3 \<lparr>shown = {}, status = []\<rparr> world0
       = (Some (Inr \<lparr>shown = {Some ''e3'', Some ''e2'', Some ''e1''}, status = ''CREATE_COMPLETE''\<rparr>),
          \<lparr>gstate = 2, console = [EventLine ev_progress, EventLine ev_child, EventLine ev_done],
           calls = [DescribeStackEvents (Some ''id-1''), DescribeStackEvents (Some ''id-1'')]\<rparr>)
   \<and> printed_since [EventLine ev_progress, EventLine ev_child]
        [EventLine ev_progress, EventLine ev_child, EventLine ev_done] = [ev_done]
   \<and> distinct (map EventId [ev_progress, ev_child, ev_done])"
  using shown_event_ids_never_reprinted[of "\<lparr>shown = {}, status = []\<rparr>" "scripted None None script1" "Some ''id-1''" world0
             "Some [ev_child, ev_progress, ev_old]"
             "\<lparr>gstate = 1, console = [], calls = [DescribeStackEvents (Some ''id-1'')]\<rparr>"
             3 "\<lparr>shown = {Some ''e2'', Some ''e1''}, status = ''CREATE_IN_PROGRESS''\<rparr>"
             "[EventLine ev_progress, EventLine ev_child]" 1
             "Some (Inr \<lparr>shown = {Some ''e3'', Some ''e2'', Some ''e1''}, status = ''CREATE_COMPLETE''\<rparr>)"
             "\<lparr>gstate = 2, console = [EventLine ev_progress, EventLine ev_child, EventLine ev_done],
               calls = [DescribeStackEvents (Some ''id-1''), DescribeStackEvents (Some ''id-1'')]\<rparr>"]
        scripted_unique_ids
  by (simp add: run_defs example_defs printed_since_def eval_nat_numeral insert_commute)

text \<open>
  One response that carries the id \<open>x\<close> twice: the filter reads \<open>shown\<close> before the
  \<open>forEach\<close> adds to it, both events pass, and the id is printed twice within one
  invocation of \<open>waitFor\<close>.
\<close>

theorem same_id_in_one_response_printed_twice:
  "EventId dup_first = Some ''x'' \<and> EventId dup_second = Some ''x''
   \<and> waitFor 3 (scripted None None [[dup_second, dup_first]]) ''s'' ''CREATE_COMPLETE'' 0 world0
      = (Some (Inr ()),
         \<lparr>gstate = 1, console = [EventLine dup_first, EventLine dup_second, Rule],
          calls = [DescribeStacks ''s'', DescribeStackEvents (Some ''id-1'')]\<rparr>)
   \<and> map EventId (printed_since (console world0)
         (console (snd (waitFor 3 (scripted None None [[dup_second, dup_first]])
                          ''s'' ''CREATE_COMPLETE'' 0 world0))))
      = [Some ''x'', Some ''x'']
   \<and> \<not> distinct (map EventId (printed_since (console world0)
         (console (snd (waitFor 3 (scripted None None [[dup_second, dup_first]])
                          ''s'' ''CREATE_COMPLETE'' 0 world0)))))"
  by (simp add: run_defs dup_first_def dup_second_def printed_since_def numeral_3_eq_3)

text \<open>
  Claim C3. One poll prints the events that pass the filter in the reverse of the
  order of the response. So for a response ordered newest first, the events printed
  by the poll are ordered oldest first, both when equal timestamps are allowed and
  when the order is strict.
\<close>

theorem poll_prints_oldest_first:
  "pollStep start es (l, c) = (l', c') \<Longrightarrow>
     printed_since c c' = rev (filter (passes start (shown l)) es)
     \<and> (sorted_wrt not_older es \<longrightarrow> sorted_wrt (\<lambda>a b. not_older b a) (printed_since c c'))
     \<and> (sorted_wrt newer es \<longrightarrow> sorted_wrt (\<lambda>a b. newer b a) (printed_since c c'))"
proof -
  assume ps: "pollStep start es (l, c) = (l', c')"
  have p: "printed_since c c' = rev (filter (passes start (shown l)) es)"
    using pollStep_printed[of c start es l] ps by simp
  have "sorted_wrt R es \<Longrightarrow> sorted_wrt (\<lambda>a b. R b a) (rev (filter (passes start (shown l)) es))" for R
    by (simp add: sorted_wrt_rev sorted_wrt_filter)
  with p show ?thesis by simp
qed

theorem poll_prints_oldest_first_witness:
  "pollStep 3 [ev_child, ev_progress, ev_old] (\<lparr>shown = {}, status = []\<rparr>, [])
     = (\<lparr>shown = {Some ''e2'', Some ''e1''}, status = ''CREATE_IN_PROGRESS''\<rparr>,
        [EventLine ev_progress, EventLine ev_child])
   \<and> sorted_wrt not_older [ev_child, ev_progress, ev_old]
   \<and> sorted_wrt newer [ev_child, ev_progress, ev_old]
   \<and> sorted_wrt (\<lambda>a b. newer b a) [ev_progress, ev_child]"
  using poll_prints_oldest_first[of 3 "[ev_child, ev_progress, ev_old]" "\<lparr>shown = {}, status = []\<rparr>" "[]"
             "\<lparr>shown = {Some ''e2'', Some ''e1''}, status = ''CREATE_IN_PROGRESS''\<rparr>"
             "[EventLine ev_progress, EventLine ev_child]"]
  by (simp add: run_defs example_defs printed_since_def not_older_def newer_def)

text \<open>
  Claim C6. An event passes the filter only with a timestamp at or after \<open>start\<close>;
  so every event a poll prints, and every event \<open>waitFor\<close> prints (whether it has
  returned, thrown, or is still polling at the bound), has a timestamp at or after
  \<open>start\<close>, whatever the service returns.
\<close>

theorem no_event_before_start_printed: 
  "(passes start sh e \<longrightarrow> (\<exists>t. Timestamp e = Some t \<and> start \<le> t))
   \<and> (\<forall>e \<in> set (printed_since c (snd (pollStep start es (l, c)))).
         \<exists>t. Timestamp e = Some t \<and> start \<le> t)
   \<and> (\<forall>e \<in> set (printed_since (console w) (console (snd (waitFor n gw name success start w)))).
         \<exists>t. Timestamp e = Some t \<and> start \<le> t)"
proof (intro conjI)
  show "passes start sh e \<longrightarrow> (\<exists>t. Timestamp e = Some t \<and> start \<le> t)"
    by (simp add: passes_timestamp)
  show "\<forall>e \<in> set (printed_since c (snd (pollStep start es (l, c)))).
         \<exists>t. Timestamp e = Some t \<and> start \<le> t"
    by (auto simp: pollStep_console printed_since_append logged_EventLines dest: passes_timestamp)
  from waitFor_console[of n gw name success start w] obtain new tl where
    h: "console (snd (waitFor n gw name success start w)) = console w @ map EventLine new @ tl"
       "\<forall>e \<in> set new. passes start {} e" "tl = [] \<or> tl = [Rule]"
    by blast
  have "printed_since (console w) (console (snd (waitFor n gw name success start w))) = new"
    using h(1,3) by (auto simp: printed_since_append logged_append logged_EventLines)
  with h(2) show "\<forall>e \<in> set (printed_since (console w) (console (snd (waitFor n gw name success start w)))).
         \<exists>t. Timestamp e = Some t \<and> start \<le> t"
    by (auto dest: passes_timestamp)
qed

theorem no_event_before_start_printed_witness:
  "passes 3 {} ev_progress \<and> \<not> passes 3 {} ev_old
   \<and> printed_since [] (snd (pollStep 3 [ev_child, ev_progress, ev_old] (\<lparr>shown = {}, status = []\<rparr>, [])))
       = [ev_progress, ev_child]
   \<and> printed_since (console world0)
        (console (snd (waitFor 5 (scripted None None script1) ''s'' ''CREATE_COMPLETE'' 3 world0)))
       = [ev_progress, ev_child, ev_done]"
  using no_event_before_start_printed[of 3 "{}" ev_progress "[]" "[ev_child, ev_progress, ev_old]" "\<lparr>shown = {}, status = []\<rparr>"
           world0 5 "scripted None None script1" "''s''" "''CREATE_COMPLETE''"]
  by (simp add: run_defs example_defs printed_since_def eval_nat_numeral)

section \<open>The tracked status\<close>

text \<open>
  Claim C4. An event whose resource type is not \<open>AWS::CloudFormation::Stack\<close> is
  printed and marked as shown, and the tracked status stays as it was, whatever the
  resource status of the event says. A poll whose events are all of this kind leaves
  the tracked status, and with it the test of the loop, unchanged.
\<close>

theorem child_resource_event_keeps_status:
  "(ResourceType e \<noteq> Some stack_type \<longrightarrow>
      forEach_body e (l, c) = (l\<lparr>shown := insert (EventId e) (shown l)\<rparr>, c @ [EventLine e]))
   \<and> ((\<forall>e \<in> set es. ResourceType e \<noteq> Some stack_type) \<longrightarrow>
        status (fst (pollStep start es (l, c))) = status l
        \<and> (finished (status (fst (pollStep start es (l, c)))) \<longleftrightarrow> finished (status l)))"
proof (intro conjI impI)
  assume "ResourceType e \<noteq> Some stack_type"
  then show "forEach_body e (l, c) = (l\<lparr>shown := insert (EventId e) (shown l)\<rparr>, c @ [EventLine e])"
    by (simp add: forEach_body_def)
next
  assume a: "\<forall>e \<in> set es. ResourceType e \<noteq> Some stack_type"
  then show s: "status (fst (pollStep start es (l, c))) = status l"
    by (simp add: pollStep_def fold_forEach_status_frame)
  then show "finished (status (fst (pollStep start es (l, c)))) \<longleftrightarrow> finished (status l)"
    by simp
qed

theorem child_resource_event_keeps_status_witness:
  "ResourceType ev_child \<noteq> Some stack_type
   \<and> ResourceStatus ev_child = Some ''CREATE_COMPLETE''
   \<and> forEach_body ev_child (\<lparr>shown = {}, status = ''CREATE_IN_PROGRESS''\<rparr>, [])
       = (\<lparr>shown = {Some ''e2''}, status = ''CREATE_IN_PROGRESS''\<rparr>, [EventLine ev_child])
   \<and> status (fst (pollStep 3 [ev_child] (\<lparr>shown = {}, status = ''CREATE_IN_PROGRESS''\<rparr>, [])))
       = ''CREATE_IN_PROGRESS''
   \<and> \<not> finished (status (fst (pollStep 3 [ev_child] (\<lparr>shown = {}, status = ''CREATE_IN_PROGRESS''\<rparr>, []))))"
  using child_resource_event_keeps_status[of ev_child "\<lparr>shown = {}, status = ''CREATE_IN_PROGRESS''\<rparr>" "[]" "[ev_child]" 3]
  by (simp add: run_defs example_defs)

text \<open>
  Claim C5. When the stack id is found and the loop exits with the locals \<open>l\<close>, the
  tracked status is terminal, the closing line is printed, and \<open>waitFor\<close> throws
  \<open>Unexpected Stack Status\<close> followed by the tracked status exactly when it differs
  from the expected one; with the expected status \<open>waitFor\<close> returns normally.
\<close>

theorem waitFor_checks_final_status:
  "getStackId gw name w = (Inr sid, w1) \<Longrightarrow>
   waitLoop n gw sid start \<lparr>shown = {}, status = []\<rparr> w1 = (Some (Inr l), w2) \<Longrightarrow>
     finished (status l)
     \<and> (status l \<noteq> success \<longrightarrow>
          waitFor n gw name success start w =
            (Some (Inl (Error (''Unexpected Stack Status '' @ status l))),
             w2\<lparr>console := console w2 @ [Rule]\<rparr>))
     \<and> (status l = success \<longrightarrow>
          waitFor n gw name success start w = (Some (Inr ()), w2\<lparr>console := console w2 @ [Rule]\<rparr>))"
  by (simp add: waitFor_def waitLoop_exit_finished)

theorem waitFor_checks_final_status_witness:
  "getStackId (scripted None None script1) ''s'' world0 = (Inr (Some ''id-1''), world1)
   \<and> waitLoop 5 (scripted None None script1) (Some ''id-1'') 3 \<lparr>shown = {}, status = []\<rparr> world1
      = (Some (Inr \<lparr>shown = {Some ''e3'', Some ''e2'', Some ''e1''}, status = ''CREATE_COMPLETE''\<rparr>),
         \<lparr>gstate = 2, console = [EventLine ev_progress, EventLine ev_child, EventLine ev_done],
          calls = [DescribeStacks ''s'', DescribeStackEvents (Some ''id-1''),
                   DescribeStackEvents (Some ''id-1'')]\<rparr>)
   \<and> waitFor 5 (scripted None None script1) ''s'' ''UPDATE_COMPLETE'' 3 world0
      = (Some (Inl (Error ''Unexpected Stack Status CREATE_COMPLETE'')),
         \<lparr>gstate = 2, console = [EventLine ev_progress, EventLine ev_child, EventLine ev_done, Rule],
          calls = [DescribeStacks ''s'', DescribeStackEvents (Some ''id-1''),
                   DescribeStackEvents (Some ''id-1'')]\<rparr>)
   \<and> waitFor 5 (scripted None None script1) ''s'' ''CREATE_COMPLETE'' 3 world0
      = (Some (Inr ()),
         \<lparr>gstate = 2, console = [EventLine ev_progress, EventLine ev_child, EventLine ev_done, Rule],
          calls = [DescribeStacks ''s'', DescribeStackEvents (Some ''id-1''),
                   DescribeStackEvents (Some ''id-1'')]\<rparr>)"
  using waitFor_checks_final_status[of "scripted None None script1" "''s''" world0 "Some ''id-1''" world1 5 3
             "\<lparr>shown = {Some ''e3'', Some ''e2'', Some ''e1''}, status = ''CREATE_COMPLETE''\<rparr>"
             "\<lparr>gstate = 2, console = [EventLine ev_progress, EventLine ev_child, EventLine ev_done],
               calls = [DescribeStacks ''s'', DescribeStackEvents (Some ''id-1''),
                        DescribeStackEvents (Some ''id-1'')]\<rparr>" "''UPDATE_COMPLETE''"]
        waitFor_checks_final_status[of "scripted None None script1" "''s''" world0 "Some ''id-1''" world1 5 3
             "\<lparr>shown = {Some ''e3'', Some ''e2'', Some ''e1''}, status = ''CREATE_COMPLETE''\<rparr>"
             "\<lparr>gstate = 2, console = [EventLine ev_progress, EventLine ev_child, EventLine ev_done],
               calls = [DescribeStacks ''s'', DescribeStackEvents (Some ''id-1''),
                        DescribeStackEvents (Some ''id-1'')]\<rparr>" "''CREATE_COMPLETE''"]
  by (simp add: run_defs example_defs world1_def eval_nat_numeral insert_commute)

section \<open>createOrUpdate: the classification of a failed update\<close>

lemma call_updateStack_calls:
  "call_updateStack gw inp w = (r, w1) \<Longrightarrow> calls w1 = calls w @ [UpdateStack inp]"
  by (auto simp: call_updateStack_def split: prod.splits)

lemma call_createStack_calls:
  "calls (snd (call_createStack gw inp w)) = calls w @ [CreateStack inp]"
  by (auto simp: call_createStack_def split: prod.splits)

text \<open>
  Claim C7. When the update submission fails with an error that \<open>stackDoesNotExist\<close>
  accepts, \<open>createOrUpdate\<close> submits a create request: the stack input of the update
  with \<open>OnFailure\<close> set to \<open>DELETE\<close>. The two submissions are the only calls made up
  to there. When the service accepts the create request, the banner
  \<open>Creating new stack\<close> is printed and the result is that of \<open>waitFor\<close> expecting
  \<open>CREATE_COMPLETE\<close>; when it rejects the request, that error is thrown.
\<close>

theorem createOrUpdate_creates_missing_stack:
  assumes upd: "call_updateStack gw (mkStackInput name template params) w = (Some err, w1)"
      and cls: "stackDoesNotExist err"
  shows "createOrUpdate n gw name template params now w =
           (case call_createStack gw (mkCreateInput (mkStackInput name template params)) w1 of
              (Some err', w3) \<Rightarrow> (Some (Inl err'), w3)
            | (None, w3) \<Rightarrow>
                waitFor n gw name ''CREATE_COMPLETE'' now
                  (logStackAction name now ''Creating new stack'' w3))
     \<and> OnFailure (mkCreateInput (mkStackInput name template params)) = ''DELETE''
     \<and> UpdateStackInput.truncate (mkCreateInput (mkStackInput name template params))
         = mkStackInput name template params
     \<and> calls (snd (call_createStack gw (mkCreateInput (mkStackInput name template params)) w1))
         = calls w @ [UpdateStack (mkStackInput name template params),
                      CreateStack (mkCreateInput (mkStackInput name template params))]"
proof (intro conjI)
  show "createOrUpdate n gw name template params now w =
           (case call_createStack gw (mkCreateInput (mkStackInput name template params)) w1 of
              (Some err', w3) \<Rightarrow> (Some (Inl err'), w3)
            | (None, w3) \<Rightarrow>
                waitFor n gw name ''CREATE_COMPLETE'' now
                  (logStackAction name now ''Creating new stack'' w3))"
    using upd cls by (simp add: createOrUpdate_def tryUpdate_def Let_def)
  show "OnFailure (mkCreateInput (mkStackInput name template params)) = ''DELETE''"
    by (simp add: mkCreateInput_def)
  show "UpdateStackInput.truncate (mkCreateInput (mkStackInput name template params))
         = mkStackInput name template params"
    by (simp add: mkCreateInput_def mkStackInput_def UpdateStackInput.truncate_def)
  show "calls (snd (call_createStack gw (mkCreateInput (mkStackInput name template params)) w1))
         = calls w @ [UpdateStack (mkStackInput name template params),
                      CreateStack (mkCreateInput (mkStackInput name template params))]"
    using call_updateStack_calls[OF upd] by (simp add: call_createStack_calls)
qed

theorem createOrUpdate_creates_missing_stack_witness:
  "call_updateStack (scripted (Some err_missing) None script1) input1 world0
     = (Some err_missing, \<lparr>gstate = 0, console = [], calls = [UpdateStack input1]\<rparr>)
   \<and> stackDoesNotExist err_missing
   \<and> createOrUpdate 5 (scripted (Some err_missing) None script1) ''s'' ''t'' params1 3 world0
     = (Some (Inr ()),
        \<lparr>gstate = 2,
         console = [ActionBanner 3 ''Creating new stack'' ''s'', EventLine ev_progress,
                    EventLine ev_child, EventLine ev_done, Rule],
         calls = [UpdateStack input1, CreateStack create1, DescribeStacks ''s'',
                  DescribeStackEvents (Some ''id-1''), DescribeStackEvents (Some ''id-1'')]\<rparr>)"
  using createOrUpdate_creates_missing_stack[of "scripted (Some err_missing) None script1" "''s''" "''t''" params1 world0
             err_missing "\<lparr>gstate = 0, console = [], calls = [UpdateStack input1]\<rparr>" 5 3]
  by (simp add: run_defs example_defs create_defs error_defs eval_nat_numeral err_missing_def)

text \<open>
  Claim C8, as the code has it. The test \<open>stackDoesNotExist\<close> is made first. When the
  update submission fails with an error that it rejects, then: if \<open>stackIsUpToDate\<close>
  accepts the error, \<open>createOrUpdate\<close> prints the banner \<open>No updates needed for stack\<close>
  and returns normally; otherwise it throws the same error, and nothing is printed. In
  both cases the update submission is the only call made, for every bound on the
  polls: \<open>waitFor\<close> is not entered.
\<close>

theorem createOrUpdate_up_to_date_or_rethrow:
  assumes upd: "call_updateStack gw (mkStackInput name template params) w = (Some err, w1)"
      and cls: "\<not> stackDoesNotExist err"
  shows "(stackIsUpToDate err \<longrightarrow>
            createOrUpdate n gw name template params now w =
              (Some (Inr ()), logStackAction name now ''No updates needed for stack'' w1))
     \<and> (\<not> stackIsUpToDate err \<longrightarrow>
            createOrUpdate n gw name template params now w = (Some (Inl err), w1))
     \<and> calls (snd (createOrUpdate n gw name template params now w))
          = calls w @ [UpdateStack (mkStackInput name template params)]"
  using upd cls call_updateStack_calls[OF upd]
  by (simp add: createOrUpdate_def tryUpdate_def Let_def logStackAction_def)

theorem createOrUpdate_up_to_date_or_rethrow_witness:
  "call_updateStack (scripted (Some err_uptodate) None script1) input1 world0
     = (Some err_uptodate, \<lparr>gstate = 0, console = [], calls = [UpdateStack input1]\<rparr>)
   \<and> stackIsUpToDate err_uptodate \<and> \<not> stackDoesNotExist err_uptodate
   \<and> createOrUpdate 5 (scripted (Some err_uptodate) None script1) ''s'' ''t'' params1 3 world0
     = (Some (Inr ()),
        \<lparr>gstate = 0, console = [ActionBanner 3 ''No updates needed for stack'' ''s''],
         calls = [UpdateStack input1]\<rparr>)
   \<and> \<not> stackIsUpToDate err_denied \<and> \<not> stackDoesNotExist err_denied
   \<and> createOrUpdate 5 (scripted (Some err_denied) None script1) ''s'' ''t'' params1 3 world0
     = (Some (Inl err_denied), \<lparr>gstate = 0, console = [], calls = [UpdateStack input1]\<rparr>)"
  using createOrUpdate_up_to_date_or_rethrow[of "scripted (Some err_uptodate) None script1" "''s''" "''t''" params1 world0
             err_uptodate "\<lparr>gstate = 0, console = [], calls = [UpdateStack input1]\<rparr>" 5 3]
        createOrUpdate_up_to_date_or_rethrow[of "scripted (Some err_denied) None script1" "''s''" "''t''" params1 world0
             err_denied "\<lparr>gstate = 0, console = [], calls = [UpdateStack input1]\<rparr>" 5 3]
  by (simp add: run_defs example_defs create_defs error_defs eval_nat_numeral
        err_uptodate_def err_denied_def)

text \<open>
  An error whose code is \<open>ValidationError\<close> and whose message contains
  \<open>No updates are to be performed\<close> and also \<open>does not exist\<close>: the first test of the
  \<open>catch\<close> block accepts it, so a create request is submitted and \<open>waitFor\<close> polls.
\<close>

theorem does_not_exist_wins_over_up_to_date:
  "Code err_both = Some ''ValidationError''
   \<and> sublist ''No updates are to be performed'' (message err_both)
   \<and> stackIsUpToDate err_both
   \<and> createOrUpdate 5 (scripted (Some err_both) None script1) ''s'' ''t'' params1 3 world0
     = (Some (Inr ()),
        \<lparr>gstate = 2,
         console = [ActionBanner 3 ''Creating new stack'' ''s'', EventLine ev_progress,
                    EventLine ev_child, EventLine ev_done, Rule],
         calls = [UpdateStack input1, CreateStack create1, DescribeStacks ''s'',
                  DescribeStackEvents (Some ''id-1''), DescribeStackEvents (Some ''id-1'')]\<rparr>)"
  by (simp add: run_defs example_defs create_defs error_defs eval_nat_numeral err_both_def)

section \<open>getOutputs\<close>

lemma fold_addOutput:
  "fold addOutput os m = m ++ map_of (rev (kept_outputs os))"
proof (induction os arbitrary: m)
  case Nil
  show ?case by (simp add: kept_outputs_def)
next
  case (Cons o1 os)
  have step: "addOutput o1 m = m ++ map_of (kept_outputs [o1])"
    by (auto simp: addOutput_def truthy_def js_assign_def or_empty_def kept_outputs_def
             split: option.splits)
  have k: "kept_outputs (o1 # os) = kept_outputs [o1] @ kept_outputs os"
    by (simp add: kept_outputs_def)
  have one: "rev (kept_outputs [o1]) = kept_outputs [o1]"
    by (simp add: kept_outputs_def split: option.splits)
  show ?case
    by (simp add: Cons.IH step k one)
qed

text \<open>
  Claim C9, as the code has it. When the stack lookup does not fail, \<open>getOutputs\<close>
  returns without an error. With exactly one stack record that has an outputs list, the
  mapping takes each key to the value of the last output with that key among the
  outputs whose key and value are both present and not the empty string (and whose key
  is not \<open>__proto__\<close>); no other key is in the mapping. With no records, several
  records, or a record without an outputs list, the mapping is empty.
\<close>

theorem getOutputs_keeps_nonempty_outputs:
  "call_describeStacks gw name w = (Inr stacks, w') \<Longrightarrow>
     getOutputs gw name w =
       (Inr (case stacks of
               Some [s] \<Rightarrow> (case Outputs s of
                              None \<Rightarrow> Map.empty
                            | Some os \<Rightarrow> map_of (rev (kept_outputs os)))
             | _ \<Rightarrow> Map.empty), w')"
  by (auto simp: getOutputs_def fold_addOutput split: option.splits list.splits)

theorem getOutputs_keeps_nonempty_outputs_witness:
  "call_describeStacks (scripted None (Some [out_role, out_empty, out_nokey]) []) ''s'' world0
     = (Inr (Some [\<lparr>StackId = Some ''id-1'', Outputs = Some [out_role, out_empty, out_nokey]\<rparr>]),
        \<lparr>gstate = 0, console = [], calls = [DescribeStacks ''s'']\<rparr>)
   \<and> getOutputs (scripted None (Some [out_role, out_empty, out_nokey]) []) ''s'' world0
     = (Inr [''Role'' \<mapsto> ''arn:aws:iam::123:role/x''],
        \<lparr>gstate = 0, console = [], calls = [DescribeStacks ''s'']\<rparr>)"
  using getOutputs_keeps_nonempty_outputs[of "scripted None (Some [out_role, out_empty, out_nokey]) []" "''s''" world0
             "Some [\<lparr>StackId = Some ''id-1'', Outputs = Some [out_role, out_empty, out_nokey]\<rparr>]"
             "\<lparr>gstate = 0, console = [], calls = [DescribeStacks ''s'']\<rparr>"]
  by (simp add: call_describeStacks_def scripted_def world0_def out_role_def out_empty_def
        out_nokey_def kept_outputs_def)

text \<open>
  An output with the key \<open>Bucket\<close> and the empty string as its value has a key and a
  value, and is left out of the mapping: the empty string is falsy.
\<close>

theorem empty_output_value_is_omitted:
  "OutputKey out_empty = Some ''Bucket'' \<and> OutputValue out_empty = Some ''''
   \<and> getOutputs (scripted None (Some [out_empty]) []) ''s'' world0
      = (Inr Map.empty, \<lparr>gstate = 0, console = [], calls = [DescribeStacks ''s'']\<rparr>)"
  by (simp add: getOutputs_def call_describeStacks_def scripted_def world0_def out_empty_def
        addOutput_def truthy_def)

section \<open>The two implementations agree\<close>

lemma finished_v2_eq: "finished_v2 s = finished s"
  by (simp add: finished_v2_def finished_def terminal_values_def)

lemma forEach_v2_fold:
  "forEach_v2 es (shown l) (status l) c =
     (shown (fst (fold forEach_body es (l, c))), status (fst (fold forEach_body es (l, c))),
      snd (fold forEach_body es (l, c)))"
proof (induction es arbitrary: l c)
  case Nil
  show ?case by simp
next
  case (Cons e es)
  let ?l = "\<lparr>shown = insert (EventId e) (shown l),
            status = (if ResourceType e = Some stack_type then or_empty (ResourceStatus e)
                      else status l)\<rparr>"
  have "forEach_v2 (e # es) (shown l) (status l) c
          = forEach_v2 es (shown ?l) (status ?l) (c @ [EventLine e])"
    by (simp add: stack_type_def or_empty_def)
  also have "\<dots> = (shown (fst (fold forEach_body es (?l, c @ [EventLine e]))),
                   status (fst (fold forEach_body es (?l, c @ [EventLine e]))),
                   snd (fold forEach_body es (?l, c @ [EventLine e])))"
    by (rule Cons.IH)
  finally have v2: "forEach_v2 (e # es) (shown l) (status l) c =
      (shown (fst (fold forEach_body es (?l, c @ [EventLine e]))),
       status (fst (fold forEach_body es (?l, c @ [EventLine e]))),
       snd (fold forEach_body es (?l, c @ [EventLine e])))" .
  have fb: "forEach_body e (l, c) = (?l, c @ [EventLine e])"
    by (simp add: forEach_body_def)
  show ?case unfolding v2 by (simp add: fb)
qed

lemma filter_v2_eq:
  "(\<lambda>e. (case Timestamp e of None \<Rightarrow> False | Some t \<Rightarrow> t \<ge> start) \<and> \<not> (EventId e \<in> sh))
     = passes start sh"
  by (auto simp: passes_def fun_eq_iff)

lemma waitLoop_v2_eq:
  "waitLoop_v2 n gw sid start (shown l) (status l) w =
     (case waitLoop n gw sid start l w of
        (None, w') \<Rightarrow> (None, w')
      | (Some (Inl err), w') \<Rightarrow> (Some (Inl err), w')
      | (Some (Inr l'), w') \<Rightarrow> (Some (Inr (status l')), w'))"
proof (induction n arbitrary: l w)
  case 0
  show ?case by (simp add: finished_v2_eq)
next
  case (Suc n)
  show ?case
  proof (cases "finished (status l)")
    case True
    then show ?thesis by (simp add: finished_v2_eq)
  next
    case False
    obtain rep w1 where call: "call_describeStackEvents gw sid w = (rep, w1)"
      by (cases "call_describeStackEvents gw sid w")
    show ?thesis
    proof (cases rep)
      case (Inl err)
      with False call show ?thesis by (simp add: finished_v2_eq)
    next
      case (Inr response)
      define es where "es = (case response of None \<Rightarrow> [] | Some es \<Rightarrow> es)"
      obtain l1 c1 where ps: "pollStep start es (l, console w1) = (l1, c1)"
        by (cases "pollStep start es (l, console w1)")
      have fe: "forEach_v2 (rev (filter (passes start (shown l)) es)) (shown l) (status l) (console w1)
                  = (shown l1, status l1, c1)"
        using ps by (simp add: forEach_v2_fold pollStep_def)
      have "waitLoop_v2 (Suc n) gw sid start (shown l) (status l) w
              = waitLoop_v2 n gw sid start (shown l1) (status l1) (w1\<lparr>console := c1\<rparr>)"
        using False call Inr fe by (simp add: finished_v2_eq filter_v2_eq es_def)
      moreover have "waitLoop (Suc n) gw sid start l w
              = waitLoop n gw sid start l1 (w1\<lparr>console := c1\<rparr>)"
        using False call Inr ps by (simp add: es_def)
      ultimately show ?thesis by (simp add: Suc.IH)
    qed
  qed
qed

lemma waitFor_v2_eq: "waitFor_v2 n gw name success start w = waitFor n gw name success start w"
proof -
  obtain rep w1 where call: "call_describeStacks gw name w = (rep, w1)"
    by (cases "call_describeStacks gw name w")
  show ?thesis
  proof (cases rep)
    case (Inl err)
    with call show ?thesis by (simp add: waitFor_v2_def waitFor_def getStackId_def)
  next
    case (Inr stacks)
    show ?thesis
    proof (cases stacks)
      case None
      with call Inr show ?thesis by (simp add: waitFor_v2_def waitFor_def getStackId_def)
    next
      case (Some ss)
      show ?thesis
      proof (cases "length ss \<noteq> 1")
        case True
        with call Inr Some show ?thesis by (simp add: waitFor_v2_def waitFor_def getStackId_def)
      next
        case False
        have "waitLoop_v2 n gw (StackId (hd ss)) start {} [] w1 =
               (case waitLoop n gw (StackId (hd ss)) start \<lparr>shown = {}, status = []\<rparr> w1 of
                  (None, w') \<Rightarrow> (None, w')
                | (Some (Inl err), w') \<Rightarrow> (Some (Inl err), w')
                | (Some (Inr l'), w') \<Rightarrow> (Some (Inr (status l')), w'))"
          using waitLoop_v2_eq[of n gw "StackId (hd ss)" start "\<lparr>shown = {}, status = []\<rparr>" w1]
          by simp
        with call Inr Some False show ?thesis
          by (simp add: waitFor_v2_def waitFor_def getStackId_def Let_def
                   split: prod.splits option.splits sum.splits)
      qed
    qed
  qed
qed

lemma outputs_v2_fold: "outputs_v2 os m = fold addOutput os m"
  by (induction os arbitrary: m)
     (auto simp: addOutput_def truthy_def or_empty_def split: option.splits)

lemma getOutputs_v2_eq: "getOutputs_v2 gw name w = getOutputs gw name w"
  by (auto simp: getOutputs_v2_def getOutputs_def outputs_v2_fold
           split: prod.splits sum.splits option.splits list.splits)

lemma fmtTime_v2_eq: "fmtTime_v2 toISO d = fmtTime toISO d"
  by (simp add: fmtTime_v2_def fmtTime_def js_substr_def js_substring_def Let_def min_def max_def)

lemma logEvent_v2_eq: "logEvent_v2 toISO wrap e = logEvent toISO wrap e"
  by (simp add: logEvent_v2_def logEvent_def fmtTime_v2_eq split: option.splits)

text \<open>
  Claim C10. On the same service, in the same world and with the same arguments, the
  \<open>waitFor\<close> of the aws-sdk v2 class and that of the aws-sdk v3 class give the same
  result (returned, thrown error, or still polling at the same bound) and the same
  world: the same console entries in the same order and the same calls. The two
  \<open>getOutputs\<close> return the same mapping or error, and the two \<open>logEvent\<close> print the
  same line for the same event (\<open>substr(11, 8)\<close> and \<open>substring(11, 19)\<close> cut the same
  characters).
\<close>

theorem sdk_v2_and_v3_agree:
  "waitFor_v2 n gw name success start w = waitFor n gw name success start w
   \<and> getOutputs_v2 gw name w = getOutputs gw name w
   \<and> logEvent_v2 toISO wrap e = logEvent toISO wrap e"
  by (simp add: waitFor_v2_eq getOutputs_v2_eq logEvent_v2_eq)

theorem sdk_v2_and_v3_agree_witness:
  "waitFor_v2 5 (scripted None None script1) ''s'' ''CREATE_COMPLETE'' 3 world0
     = (Some (Inr ()),
        \<lparr>gstate = 2, console = [EventLine ev_progress, EventLine ev_child, EventLine ev_done, Rule],
         calls = [DescribeStacks ''s'', DescribeStackEvents (Some ''id-1''),
                  DescribeStackEvents (Some ''id-1'')]\<rparr>)
   \<and> getOutputs_v2 (scripted None (Some [\<lparr>OutputKey = Some ''Role'', OutputValue = Some ''arn''\<rparr>]) [])
        ''s'' world0
     = (Inr [''Role'' \<mapsto> ''arn''], \<lparr>gstate = 0, console = [], calls = [DescribeStacks ''s'']\<rparr>)
   \<and> logEvent_v2 (\<lambda>d. ''2021-03-04T16:27:28.000Z'') (\<lambda>r. r) ev_done
     = Some (''16:27:28 CREATE_COMPLETE AWS::CloudFormation::Stack ''
             @ [CHR 0x22] @ ''res'' @ [CHR 0x22] @ '' '')"
  using sdk_v2_and_v3_agree[of 5 "scripted None None script1" "''s''" "''CREATE_COMPLETE''" 3 world0]
        sdk_v2_and_v3_agree[of 0 "scripted None (Some [\<lparr>OutputKey = Some ''Role'', OutputValue = Some ''arn''\<rparr>]) []"
               "''s''" "[]" 0 world0 "\<lambda>d. ''2021-03-04T16:27:28.000Z''" "\<lambda>r. r" ev_done]
  by (simp add: run_defs example_defs eval_nat_numeral getOutputs_def addOutput_def truthy_def
        js_assign_def logEvent_def fmtTime_def js_substring_def fmtReason_def)

end
